theory Spec2Isabelle
  imports Complex_Main "HOL-Library.Sublist" "HOL-Library.Word"
begin

section \<open>Exceptions\<close>

text \<open>
  The handlers of \<^verbatim>\<open>backend.py\<close> distinguish \<^verbatim>\<open>sqlite3.OperationalError\<close> from every
  other subclass of \<^verbatim>\<open>Exception\<close>, and read an exception only through \<^verbatim>\<open>str(e)\<close>.
  An exception is therefore its class (one of the two) and its message.
\<close>

datatype exn = OperationalError string | OtherException string

fun str_exn :: "exn \<Rightarrow> string" where
  "str_exn (OperationalError msg) = msg"
| "str_exn (OtherException msg) = msg"

section \<open>The calculator tool\<close>

text \<open>
  \<^verbatim>\<open>calculator(first_num: float, second_num: float, operation: str) -> dict\<close>.
  The operators of the number type belong to Python, not to this repository, and they are
  the only place where the body of the \<^verbatim>\<open>try\<close> can raise. They are a parameter of the
  model: each binary operator either returns a number or raises, and \<^verbatim>\<open>second_num == 0\<close>
  is a test on the number.
\<close>

record 'n py_number =
  py_add :: "'n \<Rightarrow> 'n \<Rightarrow> exn + 'n"
  py_sub :: "'n \<Rightarrow> 'n \<Rightarrow> exn + 'n"
  py_mul :: "'n \<Rightarrow> 'n \<Rightarrow> exn + 'n"
  py_truediv :: "'n \<Rightarrow> 'n \<Rightarrow> exn + 'n"
  py_eq_zero :: "'n \<Rightarrow> bool"

text \<open>The returned dict, \<^verbatim>\<open>{"result": r}\<close> or \<^verbatim>\<open>{"error": msg}\<close>, as its list of items.\<close>

datatype 'n py_val = Num 'n | Str string

type_synonym 'n py_dict = "(string \<times> 'n py_val) list"

text \<open>
  The body of the \<^verbatim>\<open>try\<close> block: \<open>Inl e\<close> when an operator raised \<open>e\<close>, otherwise the
  dict of the \<^verbatim>\<open>return\<close> statement that was reached.
\<close>

definition calculator_try ::
  "'n py_number \<Rightarrow> 'n \<Rightarrow> 'n \<Rightarrow> string \<Rightarrow> exn + 'n py_dict" where
  "calculator_try P first_num second_num operation =
     (if operation = ''add'' then
        (case py_add P first_num second_num of
           Inl e \<Rightarrow> Inl e | Inr result \<Rightarrow> Inr [(''result'', Num result)])
      else if operation = ''sub'' then
        (case py_sub P first_num second_num of
           Inl e \<Rightarrow> Inl e | Inr result \<Rightarrow> Inr [(''result'', Num result)])
      else if operation = ''mul'' then
        (case py_mul P first_num second_num of
           Inl e \<Rightarrow> Inl e | Inr result \<Rightarrow> Inr [(''result'', Num result)])
      else if operation = ''div'' then
        (if py_eq_zero P second_num then Inr [(''error'', Str ''Division by zero'')]
         else
           (case py_truediv P first_num second_num of
              Inl e \<Rightarrow> Inl e | Inr result \<Rightarrow> Inr [(''result'', Num result)]))
      else
        Inr [(''error'',
              Str (''Unsupported operation '' @ [CHR 0x27] @ operation @ [CHR 0x27]))])"

text \<open>
  The whole function, with its \<^verbatim>\<open>except Exception as e: return {"error": str(e)}\<close>.
  The result type keeps the possibility of an exception leaving the function, so that
  "never raises" is a statement about the model and not a consequence of its type.
\<close>

definition calculator ::
  "'n py_number \<Rightarrow> 'n \<Rightarrow> 'n \<Rightarrow> string \<Rightarrow> exn + 'n py_dict" where
  "calculator P first_num second_num operation =
     (case calculator_try P first_num second_num operation of
        Inl e \<Rightarrow> Inr [(''error'', Str (str_exn e))]
      | Inr d \<Rightarrow> Inr d)"

text \<open>
  A number type for concrete evaluation: integers with trapped overflow, where an operator
  raises as soon as its result exceeds 1000 in magnitude (a decimal context with the
  overflow trap set behaves like this).
\<close>

definition trapped :: "int \<Rightarrow> exn + int" where
  "trapped r = (if \<bar>r\<bar> > 1000 then Inl (OtherException ''overflow'') else Inr r)"

definition trap_number :: "int py_number" where
  "trap_number =
     \<lparr> py_add = (\<lambda>a b. trapped (a + b)),
       py_sub = (\<lambda>a b. trapped (a - b)),
       py_mul = (\<lambda>a b. trapped (a * b)),
       py_truediv = (\<lambda>a b. trapped (a div b)),
       py_eq_zero = (\<lambda>b. b = 0) \<rparr>"

text \<open>
  Python's \<^verbatim>\<open>float\<close>, the type of \<^verbatim>\<open>first_num\<close> and \<^verbatim>\<open>second_num\<close>: an IEEE 754 double.
  A finite double is the rational number it denotes; the two zeros of the format are one
  value here, since they differ only in the sign that is printed.
\<close>

datatype py_float = Finite rat | PosInf | NegInf | NaN

text \<open>
  \<open>bit_length n\<close> is the number of binary digits of \<open>n > 0\<close>; \<open>ilog2 x\<close> is the integer \<open>e\<close> with
  \<open>2\<^sup>e \<le> x < 2\<^sup>e\<^sup>+\<^sup>1\<close> for \<open>x > 0\<close>; \<open>pow2 k\<close> is \<open>2\<^sup>k\<close> for an integer \<open>k\<close>.
\<close>

function bit_length :: "int \<Rightarrow> int" where
  "bit_length n = (if n \<le> 0 then 0 else 1 + bit_length (n div 2))"
  by auto
termination
  by (relation "measure nat") auto

declare bit_length.simps [simp del]

definition ilog2 :: "rat \<Rightarrow> int" where
  "ilog2 x =
     (if 1 \<le> x then bit_length \<lfloor>x\<rfloor> - 1
      else - bit_length (\<lceil>1 / x\<rceil> - 1))"

definition pow2 :: "int \<Rightarrow> rat" where
  "pow2 k = (if 0 \<le> k then 2 ^ nat k else 1 / 2 ^ nat (- k))"

definition round_half_even :: "rat \<Rightarrow> int" where
  "round_half_even y =
     (let f = \<lfloor>y\<rfloor>; r = y - of_int f
      in if r < 1 / 2 then f
         else if 1 / 2 < r then f + 1
         else if even f then f else f + 1)"

text \<open>
  Rounding of an exact result to a double, in the default rounding mode: to the nearest
  multiple of the spacing \<open>2\<^sup>e\<^sup>-\<^sup>5\<^sup>2\<close> of the doubles around \<open>x\<close> (the exponent \<open>e\<close>
  is not below \<open>-1022\<close>, where the subnormal numbers begin), a tie to the multiple
  with an even significand, and to an infinity when the rounded magnitude reaches
  \<open>2\<^sup>1\<^sup>0\<^sup>2\<^sup>4\<close>.
\<close>

definition round_double :: "rat \<Rightarrow> py_float" where
  "round_double x =
     (if x = 0 then Finite 0
      else
        (let e = max (ilog2 \<bar>x\<bar>) (- 1022);
             q = pow2 (e - 52);
             y = of_int (round_half_even (\<bar>x\<bar> / q)) * q
         in if 2 ^ 1024 \<le> y then (if x < 0 then NegInf else PosInf)
            else Finite (sgn x * y)))"

fun negative :: "py_float \<Rightarrow> bool" where
  "negative (Finite x) = (x < 0)"
| "negative PosInf = False"
| "negative NegInf = True"
| "negative NaN = False"

text \<open>
  The operators \<^verbatim>\<open>+\<close>, \<^verbatim>\<open>-\<close>, \<^verbatim>\<open>*\<close> and \<^verbatim>\<open>/\<close> on floats. The first three never raise;
  \<^verbatim>\<open>/\<close> raises \<^verbatim>\<open>ZeroDivisionError\<close> when the divisor equals zero and on no other
  operands.
\<close>

fun float_add :: "py_float \<Rightarrow> py_float \<Rightarrow> py_float" where
  "float_add (Finite x) (Finite y) = round_double (x + y)"
| "float_add NaN b = NaN"
| "float_add a NaN = NaN"
| "float_add PosInf NegInf = NaN"
| "float_add NegInf PosInf = NaN"
| "float_add PosInf b = PosInf"
| "float_add NegInf b = NegInf"
| "float_add a PosInf = PosInf"
| "float_add a NegInf = NegInf"

fun float_neg :: "py_float \<Rightarrow> py_float" where
  "float_neg (Finite x) = Finite (- x)"
| "float_neg PosInf = NegInf"
| "float_neg NegInf = PosInf"
| "float_neg NaN = NaN"

fun float_sub :: "py_float \<Rightarrow> py_float \<Rightarrow> py_float" where
  "float_sub (Finite x) (Finite y) = round_double (x - y)"
| "float_sub a b = float_add a (float_neg b)"

fun float_mul :: "py_float \<Rightarrow> py_float \<Rightarrow> py_float" where
  "float_mul (Finite x) (Finite y) = round_double (x * y)"
| "float_mul NaN b = NaN"
| "float_mul a NaN = NaN"
| "float_mul a b =
     (if a = Finite 0 \<or> b = Finite 0 then NaN
      else if negative a = negative b then PosInf else NegInf)"

fun float_truediv :: "py_float \<Rightarrow> py_float \<Rightarrow> exn + py_float" where
  "float_truediv a (Finite y) =
     (if y = 0 then Inl (OtherException ''float division by zero'')
      else case a of
             Finite x \<Rightarrow> Inr (round_double (x / y))
           | NaN \<Rightarrow> Inr NaN
           | PosInf \<Rightarrow> Inr (if y < 0 then NegInf else PosInf)
           | NegInf \<Rightarrow> Inr (if y < 0 then PosInf else NegInf))"
| "float_truediv a NaN = Inr NaN"
| "float_truediv (Finite x) b = Inr (Finite 0)"
| "float_truediv NaN b = Inr NaN"
| "float_truediv a b = Inr NaN"

definition float_number :: "py_float py_number" where
  "float_number =
     \<lparr> py_add = (\<lambda>a b. Inr (float_add a b)),
       py_sub = (\<lambda>a b. Inr (float_sub a b)),
       py_mul = (\<lambda>a b. Inr (float_mul a b)),
       py_truediv = float_truediv,
       py_eq_zero = (\<lambda>b. b = Finite 0) \<rparr>"

section \<open>Messages and the graph's stream\<close>

text \<open>
  The message classes that \<^verbatim>\<open>backend.py\<close> imports and tests with \<^verbatim>\<open>isinstance\<close>.
  \<^verbatim>\<open>AIMessageChunk\<close> is a subclass of \<^verbatim>\<open>AIMessage\<close>, so a streamed assistant chunk is
  an \<open>AIMessage\<close> here. A tool call is its name and its arguments; a \<open>ToolMessage\<close>
  carries the id of the call it answers. \<open>SystemMessage\<close> stands for the remaining
  subclasses of \<^verbatim>\<open>BaseMessage\<close>. The content is text, and \<^verbatim>\<open>msg.content\<close> is truthy
  exactly when the text is not empty.
\<close>

type_synonym tool_call = "string \<times> string"

datatype base_message =
    is_HumanMessage: HumanMessage (content: string)
  | is_AIMessage: AIMessage (content: string) "tool_call list"
  | is_ToolMessage: ToolMessage (content: string) string
  | is_SystemMessage: SystemMessage (content: string)

text \<open>
  \<^verbatim>\<open>chatbot.stream(..., stream_mode="messages")\<close> is a generator of pairs
  \<^verbatim>\<open>(message_chunk, metadata)\<close>; the loop never reads the metadata. Each time it is
  asked for the next item it yields one, is exhausted, or raises. The graph's recursion
  limit bounds the number of items, so the run of a generator is a finite object. What
  the stream raises is an \<^verbatim>\<open>Exception\<close>: a model error, a tool error, a storage
  error. An interrupt of the process or the closing of the generator by a client that went
  away is not an \<^verbatim>\<open>Exception\<close> and is outside this model.
\<close>

datatype graph_stream =
    Yield base_message graph_stream
  | StopIteration
  | Raise exn

text \<open>
  The messages a stream yields before it stops or raises, and the exception it ends
  with, if any.
\<close>

fun yielded :: "graph_stream \<Rightarrow> base_message list" where
  "yielded (Yield m rest) = m # yielded rest"
| "yielded StopIteration = []"
| "yielded (Raise e) = []"

fun stream_end :: "graph_stream \<Rightarrow> exn option" where
  "stream_end (Yield m rest) = stream_end rest"
| "stream_end StopIteration = None"
| "stream_end (Raise e) = Some e"

section \<open>The chat endpoint\<close>

text \<open>
  An event is the dict that is serialised into one \<^verbatim>\<open>data: <json>\<close> line:
  its keys \<^verbatim>\<open>type\<close>, \<^verbatim>\<open>content\<close> and \<^verbatim>\<open>thread_id\<close> are the fields
  \<open>ev_type\<close>, \<open>ev_content\<close> and \<open>ev_thread_id\<close>. The lines are yielded one by one;
  the model returns them as the list of everything the generator yields, in order.
\<close>

record sse_event =
  ev_type :: string
  ev_content :: string
  ev_thread_id :: string

text \<open>
  The \<^verbatim>\<open>for\<close> loop of \<^verbatim>\<open>generate_response\<close> together with what follows it: the
  \<^verbatim>\<open>complete\<close> event when the stream is exhausted, the \<^verbatim>\<open>error\<close> event of the
  \<^verbatim>\<open>except Exception\<close> handler when the stream raises.
\<close>

fun stream_loop :: "string \<Rightarrow> graph_stream \<Rightarrow> string \<Rightarrow> sse_event list" where
  "stream_loop thread_id (Yield message_chunk rest) full_response =
     (if is_AIMessage message_chunk \<and> content message_chunk \<noteq> [] then
        \<lparr> ev_type = ''chunk'', ev_content = content message_chunk,
          ev_thread_id = thread_id \<rparr>
        # stream_loop thread_id rest (full_response @ content message_chunk)
      else stream_loop thread_id rest full_response)"
| "stream_loop thread_id StopIteration full_response =
     [\<lparr> ev_type = ''complete'', ev_content = full_response, ev_thread_id = thread_id \<rparr>]"
| "stream_loop thread_id (Raise e) full_response =
     [\<lparr> ev_type = ''error'', ev_content = str_exn e, ev_thread_id = thread_id \<rparr>]"

definition generate_response :: "graph_stream \<Rightarrow> string \<Rightarrow> sse_event list" where
  "generate_response stream thread_id = stream_loop thread_id stream []"

text \<open>
  \<^verbatim>\<open>str(uuid.uuid4())\<close>: the 128-bit value of the UUID is a parameter, and \<open>str_uuid\<close>
  is the library's \<^verbatim>\<open>'%032x' % self.int\<close> cut into groups of 8, 4, 4, 4 and 12 digits.
  \<open>hex_width k n\<close> is \<^verbatim>\<open>'%0kx' % n\<close> for \<open>n < 16 ^ k\<close>.
\<close>

definition hex_digit :: "nat \<Rightarrow> char" where
  "hex_digit d = ''0123456789abcdef'' ! d"

fun hex_width :: "nat \<Rightarrow> nat \<Rightarrow> string" where
  "hex_width 0 n = []"
| "hex_width (Suc k) n = hex_width k (n div 16) @ [hex_digit (n mod 16)]"

definition str_uuid :: "128 word \<Rightarrow> string" where
  "str_uuid u =
     (let hex = hex_width 32 (unat u)
      in take 8 hex @ ''-'' @ take 4 (drop 8 hex) @ ''-'' @ take 4 (drop 12 hex) @ ''-''
         @ take 4 (drop 16 hex) @ ''-'' @ drop 20 hex)"

text \<open>
  The request body: \<open>req_message\<close> is \<^verbatim>\<open>request.message\<close> and \<open>req_thread_id\<close> is
  \<^verbatim>\<open>request.thread_id\<close>, an optional string whose default is \<^verbatim>\<open>None\<close>.
\<close>

record ChatRequest =
  req_message :: string
  req_thread_id :: "string option"

text \<open>
  \<^verbatim>\<open>chat_endpoint\<close>. Python's \<^verbatim>\<open>request.thread_id or str(uuid.uuid4())\<close> takes the
  right operand when the left one is \<^verbatim>\<open>None\<close> or the empty string. The compiled graph
  is a parameter: from the input messages and the thread id of the config it gives the
  stream. The result is the body of the streaming response.
\<close>

definition chat_endpoint ::
  "(base_message list \<Rightarrow> string \<Rightarrow> graph_stream) \<Rightarrow> 128 word \<Rightarrow> ChatRequest
     \<Rightarrow> sse_event list" where
  "chat_endpoint chatbot_stream uuid4 request =
     (let thread_id =
        (case req_thread_id request of
           None \<Rightarrow> str_uuid uuid4
         | Some t \<Rightarrow> if t \<noteq> [] then t else str_uuid uuid4)
      in generate_response
           (chatbot_stream [HumanMessage (req_message request)] thread_id) thread_id)"

section \<open>Reading a thread's history\<close>

text \<open>
  \<^verbatim>\<open>chatbot.get_state\<close> is a parameter: it raises, or returns a state whose
  \<^verbatim>\<open>values\<close> dict may hold the key \<^verbatim>\<open>messages\<close>.
\<close>

type_synonym state_values = "string \<rightharpoonup> base_message list"

definition load_conversation ::
  "(string \<Rightarrow> exn + state_values) \<Rightarrow> string \<Rightarrow> base_message list" where
  "load_conversation get_state thread_id =
     (case get_state thread_id of
        Inl e \<Rightarrow> []
      | Inr vals \<Rightarrow> (case vals ''messages'' of None \<Rightarrow> [] | Some msgs \<Rightarrow> msgs))"

text \<open>An entry of the returned list, \<^verbatim>\<open>{"role": ..., "content": ...}\<close>.\<close>

record formatted_message =
  fm_role :: string
  fm_content :: string

fun format_loop ::
  "base_message list \<Rightarrow> formatted_message list \<Rightarrow> formatted_message list" where
  "format_loop [] formatted_messages = formatted_messages"
| "format_loop (msg # msgs) formatted_messages =
     (if is_HumanMessage msg then
        format_loop msgs
          (formatted_messages @ [\<lparr> fm_role = ''user'', fm_content = content msg \<rparr>])
      else if is_AIMessage msg \<and> content msg \<noteq> [] then
        format_loop msgs
          (formatted_messages @ [\<lparr> fm_role = ''assistant'', fm_content = content msg \<rparr>])
      else format_loop msgs formatted_messages)"

definition get_thread_messages ::
  "(string \<Rightarrow> exn + state_values) \<Rightarrow> string \<Rightarrow> formatted_message list" where
  "get_thread_messages get_state thread_id =
     format_loop (load_conversation get_state thread_id) []"

text \<open>
  The display view as the specification words it: the stored order, restricted to user
  messages and to assistant messages with non-empty content, each with its role.
\<close>

definition spec_displayed :: "base_message \<Rightarrow> bool" where
  "spec_displayed m \<longleftrightarrow> is_HumanMessage m \<or> (is_AIMessage m \<and> content m \<noteq> [])"

definition spec_role :: "base_message \<Rightarrow> string" where
  "spec_role m = (if is_HumanMessage m then ''user'' else ''assistant'')"

definition spec_get_messages :: "base_message list \<Rightarrow> formatted_message list" where
  "spec_get_messages msgs =
     map (\<lambda>m. \<lparr> fm_role = spec_role m, fm_content = content m \<rparr>) (filter spec_displayed msgs)"

text \<open>
  A checkpoint store for concrete evaluation. Thread \<^verbatim>\<open>t1\<close> holds a turn with a tool call,
  thread \<^verbatim>\<open>t2\<close> only the tool call and its answer, reading thread \<^verbatim>\<open>t3\<close> fails, and any
  other thread has no checkpoint, for which the state has no values.
\<close>

definition example_get_state :: "string \<Rightarrow> exn + state_values" where
  "example_get_state thread_id =
     (if thread_id = ''t1'' then
        Inr [''messages'' \<mapsto>
          [HumanMessage ''2+2?'', AIMessage [] [(''calculator'', ''{}'')],
           ToolMessage ''4'' ''call_1'', AIMessage ''Four'' [], HumanMessage []]]
      else if thread_id = ''t2'' then
        Inr [''messages'' \<mapsto>
          [AIMessage [] [(''calculator'', ''{}'')], ToolMessage ''4'' ''call_1'']]
      else if thread_id = ''t3'' then Inl (OperationalError ''database is locked'')
      else Inr Map.empty)"

section \<open>Deleting a thread\<close>

text \<open>
  The SQLite file behind \<^verbatim>\<open>conn\<close>: a table name is mapped to the rows of the table, or
  to \<open>None\<close> when the table does not exist. Which tables exist is decided by the
  checkpointer, not by \<^verbatim>\<open>backend.py\<close>, so the database is an input. Of a row only its
  \<^verbatim>\<open>thread_id\<close> column is read; \<open>row_rest\<close> is the remainder.
\<close>

record db_row =
  row_thread_id :: string
  row_rest :: string

type_synonym database = "string \<rightharpoonup> db_row list"

text \<open>
  The connection is shared with the checkpointer and is never rolled back here. A statement
  changes what the connection sees (\<open>working\<close>); \<^verbatim>\<open>conn.commit()\<close> makes that the stored
  state (\<open>durable\<close>).
\<close>

record connection =
  working :: database
  durable :: database

text \<open>
  Faults of the storage that do not depend on the data (a locked database, an I/O error,
  a closed connection): for \<^verbatim>\<open>conn.cursor()\<close>, for the statement on each table, and for
  \<^verbatim>\<open>conn.commit()\<close>, the exception that the call raises, if any.
\<close>

record sqlite_faults =
  cursor_fault :: "exn option"
  execute_fault :: "string \<Rightarrow> exn option"
  commit_fault :: "exn option"

text \<open>
  \<^verbatim>\<open>cursor.execute(f"DELETE FROM {table} WHERE thread_id = ?", (t_id_str,))\<close>.
  On a table that does not exist SQLite raises \<^verbatim>\<open>OperationalError\<close> with the message
  \<^verbatim>\<open>no such table: <table>\<close>.
\<close>

definition cursor_execute_delete ::
  "sqlite_faults \<Rightarrow> string \<Rightarrow> string \<Rightarrow> connection \<Rightarrow> exn + connection" where
  "cursor_execute_delete F table t_id_str conn =
     (case execute_fault F table of
        Some e \<Rightarrow> Inl e
      | None \<Rightarrow>
          (case working conn table of
             None \<Rightarrow> Inl (OperationalError (''no such table: '' @ table))
           | Some rows \<Rightarrow>
               Inr (conn\<lparr> working :=
                     (working conn)(table \<mapsto> filter (\<lambda>r. row_thread_id r \<noteq> t_id_str) rows) \<rparr>)))"

definition conn_commit :: "sqlite_faults \<Rightarrow> connection \<Rightarrow> exn + connection" where
  "conn_commit F conn =
     (case commit_fault F of
        Some e \<Rightarrow> Inl e
      | None \<Rightarrow> Inr (conn\<lparr> durable := working conn \<rparr>))"

definition tables :: "string list" where
  "tables = [''checkpoints'', ''checkpoint_writes'', ''checkpoint_blobs'']"

text \<open>
  The \<^verbatim>\<open>for table in tables\<close> loop with its inner handler: an \<^verbatim>\<open>OperationalError\<close>
  whose text contains \<^verbatim>\<open>no such table\<close> goes on with the next table, any other exception
  leaves the loop. The result is the exception that left the loop, if any, and the
  connection as the loop left it.
\<close>

fun delete_loop ::
  "sqlite_faults \<Rightarrow> string \<Rightarrow> string list \<Rightarrow> connection \<Rightarrow> exn option \<times> connection" where
  "delete_loop F t_id_str [] conn = (None, conn)"
| "delete_loop F t_id_str (table # rest) conn =
     (case cursor_execute_delete F table t_id_str conn of
        Inr conn' \<Rightarrow> delete_loop F t_id_str rest conn'
      | Inl (OperationalError msg) \<Rightarrow>
          if sublist ''no such table'' msg then delete_loop F t_id_str rest conn
          else (Some (OperationalError msg), conn)
      | Inl (OtherException msg) \<Rightarrow> (Some (OtherException msg), conn))"

text \<open>
  The body of the outer \<^verbatim>\<open>try\<close>: \<open>Inl e\<close> when \<open>e\<close> was raised inside it, \<open>Inr True\<close>
  when \<^verbatim>\<open>return True\<close> was reached. The \<^verbatim>\<open>print\<close> calls write to the log only.
\<close>

definition delete_thread_try ::
  "sqlite_faults \<Rightarrow> string \<Rightarrow> connection \<Rightarrow> (exn + bool) \<times> connection" where
  "delete_thread_try F thread_id conn =
     (case cursor_fault F of
        Some e \<Rightarrow> (Inl e, conn)
      | None \<Rightarrow>
          (case delete_loop F thread_id tables conn of
             (Some e, conn') \<Rightarrow> (Inl e, conn')
           | (None, conn') \<Rightarrow>
               (case conn_commit F conn' of
                  Inl e \<Rightarrow> (Inl e, conn')
                | Inr conn'' \<Rightarrow> (Inr True, conn''))))"

text \<open>
  \<^verbatim>\<open>delete_thread\<close> with its \<^verbatim>\<open>except Exception as e: ... return False\<close>. The first
  component is what the caller gets: \<open>Inr b\<close> for the returned boolean, \<open>Inl e\<close> for an
  exception that reaches the caller.
\<close>

definition delete_thread ::
  "sqlite_faults \<Rightarrow> string \<Rightarrow> connection \<Rightarrow> (exn + bool) \<times> connection" where
  "delete_thread F thread_id conn =
     (case delete_thread_try F thread_id conn of
        (Inl e, conn') \<Rightarrow> (Inr False, conn')
      | (Inr b, conn') \<Rightarrow> (Inr b, conn'))"

text \<open>A storage without faults, and one whose first statement fails with an I/O error.\<close>

definition no_faults :: sqlite_faults where
  "no_faults = \<lparr> cursor_fault = None, execute_fault = (\<lambda>table. None), commit_fault = None \<rparr>"

definition io_fault :: sqlite_faults where
  "io_fault =
     \<lparr> cursor_fault = None,
       execute_fault =
         (\<lambda>table. if table = ''checkpoints'' then Some (OperationalError ''disk I/O error'')
                  else None),
       commit_fault = None \<rparr>"

text \<open>
  The database that \<^verbatim>\<open>SqliteSaver\<close> sets up has the two tables \<^verbatim>\<open>checkpoints\<close> and
  \<^verbatim>\<open>writes\<close>. Here thread \<^verbatim>\<open>t1\<close> has a row in each, and thread \<^verbatim>\<open>t2\<close> a checkpoint.
\<close>

definition saver_db :: database where
  "saver_db =
     [''checkpoints'' \<mapsto>
        [\<lparr> row_thread_id = ''t1'', row_rest = ''checkpoint 1'' \<rparr>,
         \<lparr> row_thread_id = ''t2'', row_rest = ''checkpoint 2'' \<rparr>],
      ''writes'' \<mapsto> [\<lparr> row_thread_id = ''t1'', row_rest = ''pending write'' \<rparr>]]"

definition saver_conn :: connection where
  "saver_conn = \<lparr> working = saver_db, durable = saver_db \<rparr>"

text \<open>Predicates for the statements about \<^verbatim>\<open>delete_thread\<close>.\<close>

definition no_such_table_error :: "exn \<Rightarrow> bool" where
  "no_such_table_error e \<longleftrightarrow>
     (case e of OperationalError msg \<Rightarrow> sublist ''no such table'' msg
              | OtherException msg \<Rightarrow> False)"

definition rows_of :: "database \<Rightarrow> string \<Rightarrow> db_row list" where
  "rows_of db table = (case db table of None \<Rightarrow> [] | Some rows \<Rightarrow> rows)"

text \<open>
  What deleting the rows of one thread from the tables \<open>ts\<close> makes of a database:
  a table of \<open>ts\<close> that exists loses those rows, everything else stays as it is.
\<close>

definition purged :: "string \<Rightarrow> string list \<Rightarrow> database \<Rightarrow> database" where
  "purged t_id_str ts db =
     (\<lambda>table. if table \<in> set ts
               then map_option (filter (\<lambda>r. row_thread_id r \<noteq> t_id_str)) (db table)
               else db table)"

section \<open>Properties of the calculator\<close>

text \<open>
  Claim C6. \<^verbatim>\<open>calculator\<close> never raises to its caller: for every number type, every pair
  of numbers and every operation it returns a dict. The dict is
  \<^verbatim>\<open>{"error": "Division by zero"}\<close> for \<^verbatim>\<open>div\<close> with a second number equal to zero,
  \<^verbatim>\<open>{"error": "Unsupported operation '<op>'"}\<close> for an operation outside
  \<^verbatim>\<open>add\<close>, \<^verbatim>\<open>sub\<close>, \<^verbatim>\<open>mul\<close>, \<^verbatim>\<open>div\<close>, and \<^verbatim>\<open>{"error": str(e)}\<close> when the operator
  of the operation raises \<open>e\<close>.
\<close>

theorem calculator_never_raises:
  "(\<exists>d. calculator P a b op = Inr d)
   \<and> (py_eq_zero P b \<longrightarrow>
        calculator P a b ''div'' = Inr [(''error'', Str ''Division by zero'')])
   \<and> (op \<notin> {''add'', ''sub'', ''mul'', ''div''} \<longrightarrow>
        calculator P a b op =
          Inr [(''error'', Str (''Unsupported operation '' @ [CHR 0x27] @ op @ [CHR 0x27]))])
   \<and> (\<forall>e. py_add P a b = Inl e \<longrightarrow>
          calculator P a b ''add'' = Inr [(''error'', Str (str_exn e))])
   \<and> (\<forall>e. py_sub P a b = Inl e \<longrightarrow>
          calculator P a b ''sub'' = Inr [(''error'', Str (str_exn e))])
   \<and> (\<forall>e. py_mul P a b = Inl e \<longrightarrow>
          calculator P a b ''mul'' = Inr [(''error'', Str (str_exn e))])
   \<and> (\<forall>e. \<not> py_eq_zero P b \<and> py_truediv P a b = Inl e \<longrightarrow>
          calculator P a b ''div'' = Inr [(''error'', Str (str_exn e))])"
  by (simp add: calculator_def calculator_try_def split: sum.splits)

theorem calculator_never_raises_witness:
  "calculator trap_number 2000 0 ''div'' = Inr [(''error'', Str ''Division by zero'')]
   \<and> calculator trap_number 2000 1 ''mod'' =
       Inr [(''error'', Str (''Unsupported operation '' @ [CHR 0x27] @ ''mod'' @ [CHR 0x27]))]
   \<and> calculator trap_number 2000 1 ''add'' = Inr [(''error'', Str ''overflow'')]
   \<and> calculator trap_number 2000 1 ''sub'' = Inr [(''error'', Str ''overflow'')]
   \<and> calculator trap_number 2000 1 ''mul'' = Inr [(''error'', Str ''overflow'')]
   \<and> calculator trap_number 2000 1 ''div'' = Inr [(''error'', Str ''overflow'')]"
  using calculator_never_raises [of trap_number 2000 0 "''mod''"]
    calculator_never_raises [of trap_number 2000 1 "''mod''"]
  by (simp add: trap_number_def trapped_def)

lemma round_double_odd: "round_double 9007199254740993 = Finite 9007199254740992"
  by code_simp

lemma round_double_5: "round_double 5 = Finite 5"
  by code_simp

lemma round_double_1: "round_double 1 = Finite 1"
  by code_simp

lemma round_double_6: "round_double 6 = Finite 6"
  by code_simp

lemma round_double_3_2: "round_double (3 / 2) = Finite (3 / 2)"
  by code_simp

text \<open>
  Claim C5, as stated: the result is the mathematically correct sum. For the floats
  \<open>2\<^sup>5\<^sup>3\<close> and \<open>1\<close> the sum \<open>2\<^sup>5\<^sup>3 + 1\<close> is not a double, and \<^verbatim>\<open>calculator\<close> returns
  \<open>2\<^sup>5\<^sup>3\<close>.
\<close>

theorem calculator_float_sum_rounded:
  "calculator float_number (Finite 9007199254740992) (Finite 1) ''add''
     = Inr [(''result'', Num (Finite 9007199254740992))]
   \<and> calculator float_number (Finite 9007199254740992) (Finite 1) ''add''
     \<noteq> Inr [(''result'', Num (Finite (9007199254740992 + 1)))]"
  by (simp add: calculator_def calculator_try_def float_number_def round_double_odd)

text \<open>
  Claim C5, amended. For \<^verbatim>\<open>add\<close>, \<^verbatim>\<open>sub\<close>, \<^verbatim>\<open>mul\<close> and for \<^verbatim>\<open>div\<close> with a second
  number that is not zero, \<^verbatim>\<open>calculator\<close> returns \<^verbatim>\<open>{"result": r}\<close> where \<open>r\<close> is what
  the operator \<^verbatim>\<open>+\<close>, \<^verbatim>\<open>-\<close>, \<^verbatim>\<open>*\<close> or \<^verbatim>\<open>/\<close> of the number type returns for the two
  numbers. On finite floats that is the exact sum, difference, product or quotient
  rounded to a double.
\<close>

theorem calculator_returns_operator_result:
  "(\<forall>r. py_add P a b = Inr r \<longrightarrow> calculator P a b ''add'' = Inr [(''result'', Num r)])
   \<and> (\<forall>r. py_sub P a b = Inr r \<longrightarrow> calculator P a b ''sub'' = Inr [(''result'', Num r)])
   \<and> (\<forall>r. py_mul P a b = Inr r \<longrightarrow> calculator P a b ''mul'' = Inr [(''result'', Num r)])
   \<and> (\<forall>r. \<not> py_eq_zero P b \<and> py_truediv P a b = Inr r \<longrightarrow>
          calculator P a b ''div'' = Inr [(''result'', Num r)])
   \<and> calculator float_number (Finite x) (Finite y) ''add''
       = Inr [(''result'', Num (round_double (x + y)))]
   \<and> calculator float_number (Finite x) (Finite y) ''sub''
       = Inr [(''result'', Num (round_double (x - y)))]
   \<and> calculator float_number (Finite x) (Finite y) ''mul''
       = Inr [(''result'', Num (round_double (x * y)))]
   \<and> (y \<noteq> 0 \<longrightarrow>
        calculator float_number (Finite x) (Finite y) ''div''
          = Inr [(''result'', Num (round_double (x / y)))])"
  by (simp add: calculator_def calculator_try_def float_number_def)

theorem calculator_returns_operator_result_witness:
  "calculator float_number (Finite 3) (Finite 2) ''add'' = Inr [(''result'', Num (Finite 5))]
   \<and> calculator float_number (Finite 3) (Finite 2) ''sub'' = Inr [(''result'', Num (Finite 1))]
   \<and> calculator float_number (Finite 3) (Finite 2) ''mul'' = Inr [(''result'', Num (Finite 6))]
   \<and> calculator float_number (Finite 3) (Finite 2) ''div''
       = Inr [(''result'', Num (Finite (3 / 2)))]"
  using calculator_returns_operator_result [of float_number "Finite 3" "Finite 2" 3 2]
  by (simp add: float_number_def round_double_5 round_double_1 round_double_6
      round_double_3_2)

section \<open>Properties of the chat stream\<close>

lemma stream_loop_chunks:
  "filter (\<lambda>e. ev_type e = ''chunk'') (stream_loop thread_id stream full_response) =
     map (\<lambda>m. \<lparr> ev_type = ''chunk'', ev_content = content m, ev_thread_id = thread_id \<rparr>)
       (filter (\<lambda>m. is_AIMessage m \<and> content m \<noteq> []) (yielded stream))"
  by (induction thread_id stream full_response rule: stream_loop.induct) simp_all

lemma stream_loop_complete:
  "e \<in> set (stream_loop thread_id stream full_response) \<Longrightarrow> ev_type e = ''complete'' \<Longrightarrow>
     ev_content e =
       full_response @ concat (map ev_content
         (filter (\<lambda>c. ev_type c = ''chunk'') (stream_loop thread_id stream full_response)))"
proof (induction thread_id stream full_response rule: stream_loop.induct)
  case (1 thread_id message_chunk rest full_response)
  then show ?case by (auto split: if_splits)
next
  case (2 thread_id full_response)
  then show ?case by simp
next
  case (3 thread_id e' full_response)
  then show ?case by simp
qed

lemma stream_loop_exhausted:
  "(\<exists>e\<in>set (stream_loop thread_id stream full_response). ev_type e = ''complete'')
     \<longleftrightarrow> (\<forall>x. stream_end stream \<noteq> Some x)"
  by (induction thread_id stream full_response rule: stream_loop.induct) auto

lemma stream_loop_shape:
  "\<exists>chunks terminal. stream_loop thread_id stream full_response = chunks @ [terminal]
     \<and> (\<forall>c\<in>set chunks. ev_type c = ''chunk'')
     \<and> (ev_type terminal = ''complete'' \<or> ev_type terminal = ''error'')"
proof (induction thread_id stream full_response rule: stream_loop.induct)
  case (1 thread_id message_chunk rest full_response)
  show ?case
  proof (cases "is_AIMessage message_chunk \<and> content message_chunk \<noteq> []")
    case True
    with 1(1) obtain chunks terminal where
      h: "stream_loop thread_id rest (full_response @ content message_chunk) = chunks @ [terminal]"
         "\<forall>c\<in>set chunks. ev_type c = ''chunk''"
         "ev_type terminal = ''complete'' \<or> ev_type terminal = ''error''"
      by blast
    let ?c = "\<lparr> ev_type = ''chunk'', ev_content = content message_chunk,
                ev_thread_id = thread_id \<rparr>"
    from True h have "stream_loop thread_id (Yield message_chunk rest) full_response
        = (?c # chunks) @ [terminal]" by simp
    moreover from h have "\<forall>c\<in>set (?c # chunks). ev_type c = ''chunk''" by simp
    ultimately show ?thesis using h(3) by blast
  next
    case False
    then have "stream_loop thread_id (Yield message_chunk rest) full_response
        = stream_loop thread_id rest full_response" by auto
    with 1(2) [OF False] show ?thesis by simp
  qed
next
  case (2 thread_id full_response)
  show ?case by simp
next
  case (3 thread_id e full_response)
  show ?case by simp
qed

lemma stream_loop_terminal_count:
  "length (filter (\<lambda>e. ev_type e = ''complete'' \<or> ev_type e = ''error'')
     (stream_loop thread_id stream full_response)) = 1"
  by (induction thread_id stream full_response rule: stream_loop.induct) simp_all

lemma stream_loop_thread_id:
  "e \<in> set (stream_loop thread_id stream full_response) \<Longrightarrow> ev_thread_id e = thread_id"
  by (induction thread_id stream full_response rule: stream_loop.induct)
     (auto split: if_splits)

lemma hex_width_numeral:
  "hex_width (numeral k) n = hex_width (pred_numeral k) (n div 16) @ [hex_digit (n mod 16)]"
  by (simp only: numeral_eq_Suc [of k] hex_width.simps)

lemma length_hex_width: "length (hex_width k n) = k"
  by (induction k arbitrary: n) simp_all

lemma length_str_uuid: "length (str_uuid u) = 36"
  by (simp add: str_uuid_def Let_def length_hex_width)

lemma str_uuid_0: "str_uuid 0 = ''00000000-0000-0000-0000-000000000000''"
  by (simp add: str_uuid_def hex_width_numeral hex_digit_def)

lemma format_loop_acc:
  "format_loop msgs acc = acc @ spec_get_messages msgs"
  by (induction msgs arbitrary: acc)
     (simp_all add: spec_get_messages_def spec_displayed_def spec_role_def)

text \<open>
  Claim C1. When a chat call completes successfully, the contents of its chunk events,
  concatenated in emission order, are exactly the content of the complete event. A call
  whose stream is exhausted without raising does emit a complete event.
\<close>

theorem chunks_concat_to_complete:
  "(stream_end stream = None \<longrightarrow>
      (\<exists>e\<in>set (generate_response stream thread_id). ev_type e = ''complete''))
   \<and> (\<forall>e\<in>set (generate_response stream thread_id).
         ev_type e = ''complete'' \<longrightarrow>
         concat (map ev_content
           (filter (\<lambda>c. ev_type c = ''chunk'') (generate_response stream thread_id)))
         = ev_content e)"
proof (intro conjI impI ballI)
  assume "stream_end stream = None"
  then show "\<exists>e\<in>set (generate_response stream thread_id). ev_type e = ''complete''"
    using stream_loop_exhausted [of thread_id stream "[]"]
    by (simp add: generate_response_def)
next
  fix e
  assume "e \<in> set (generate_response stream thread_id)" and "ev_type e = ''complete''"
  then show "concat (map ev_content
      (filter (\<lambda>c. ev_type c = ''chunk'') (generate_response stream thread_id)))
    = ev_content e"
    unfolding generate_response_def using stream_loop_complete [of e thread_id stream "[]"]
    by simp
qed

theorem chunks_concat_to_complete_witness:
  "stream_end (Yield (AIMessage ''Hel'' []) (Yield (ToolMessage ''4'' ''call_1'')
      (Yield (AIMessage ''lo'' []) StopIteration))) = None
   \<and> generate_response (Yield (AIMessage ''Hel'' []) (Yield (ToolMessage ''4'' ''call_1'')
      (Yield (AIMessage ''lo'' []) StopIteration))) ''t1''
     = [\<lparr> ev_type = ''chunk'', ev_content = ''Hel'', ev_thread_id = ''t1'' \<rparr>,
        \<lparr> ev_type = ''chunk'', ev_content = ''lo'', ev_thread_id = ''t1'' \<rparr>,
        \<lparr> ev_type = ''complete'', ev_content = ''Hello'', ev_thread_id = ''t1'' \<rparr>]
   \<and> concat (map ev_content (filter (\<lambda>c. ev_type c = ''chunk'')
        (generate_response (Yield (AIMessage ''Hel'' []) (Yield (ToolMessage ''4'' ''call_1'')
          (Yield (AIMessage ''lo'' []) StopIteration))) ''t1'')))
     = ev_content \<lparr> ev_type = ''complete'', ev_content = ''Hello'', ev_thread_id = ''t1'' \<rparr>"
  using chunks_concat_to_complete
    [of "Yield (AIMessage ''Hel'' []) (Yield (ToolMessage ''4'' ''call_1'')
          (Yield (AIMessage ''lo'' []) StopIteration))" "''t1''"]
  by (simp add: generate_response_def)

text \<open>
  Claim C2. The events of a chat call are zero or more chunk events followed by one
  terminal event, which is a complete event or an error event; no other event of the
  call is terminal.
\<close>

theorem exactly_one_terminal_event:
  "(\<exists>chunks terminal. generate_response stream thread_id = chunks @ [terminal]
      \<and> (\<forall>c\<in>set chunks. ev_type c = ''chunk'')
      \<and> (ev_type terminal = ''complete'' \<or> ev_type terminal = ''error''))
   \<and> length (filter (\<lambda>e. ev_type e = ''complete'' \<or> ev_type e = ''error'')
        (generate_response stream thread_id)) = 1"
  unfolding generate_response_def
  using stream_loop_shape [of thread_id stream "[]"]
    stream_loop_terminal_count [of thread_id stream "[]"]
  by blast

theorem exactly_one_terminal_event_witness:
  "generate_response (Yield (AIMessage ''Hel'' []) (Raise (OtherException ''rate limit''))) ''t1''
     = [\<lparr> ev_type = ''chunk'', ev_content = ''Hel'', ev_thread_id = ''t1'' \<rparr>]
       @ [\<lparr> ev_type = ''error'', ev_content = ''rate limit'', ev_thread_id = ''t1'' \<rparr>]
   \<and> length (filter (\<lambda>e. ev_type e = ''complete'' \<or> ev_type e = ''error'')
        (generate_response
          (Yield (AIMessage ''Hel'' []) (Raise (OtherException ''rate limit''))) ''t1'')) = 1"
  using exactly_one_terminal_event
    [of "Yield (AIMessage ''Hel'' []) (Raise (OtherException ''rate limit''))" "''t1''"]
  by (simp add: generate_response_def)

text \<open>
  Claim C10. The chunk events of a chat call are, in order, the assistant chunks with
  non-empty content that the stream yielded, one event for each; so every chunk event has
  non-empty content, and none comes from a tool message or from an assistant chunk with
  empty content.
\<close>

theorem chunk_events_from_nonempty_ai_chunks:
  "filter (\<lambda>e. ev_type e = ''chunk'') (generate_response stream thread_id) =
     map (\<lambda>m. \<lparr> ev_type = ''chunk'', ev_content = content m, ev_thread_id = thread_id \<rparr>)
       (filter (\<lambda>m. is_AIMessage m \<and> content m \<noteq> []) (yielded stream))
   \<and> (\<forall>e\<in>set (generate_response stream thread_id). ev_type e = ''chunk'' \<longrightarrow>
         ev_content e \<noteq> []
         \<and> (\<exists>m\<in>set (yielded stream). is_AIMessage m \<and> ev_content e = content m))"
proof -
  let ?evs = "generate_response stream thread_id"
  have eq: "filter (\<lambda>e. ev_type e = ''chunk'') ?evs =
     map (\<lambda>m. \<lparr> ev_type = ''chunk'', ev_content = content m, ev_thread_id = thread_id \<rparr>)
       (filter (\<lambda>m. is_AIMessage m \<and> content m \<noteq> []) (yielded stream))"
    unfolding generate_response_def by (rule stream_loop_chunks)
  have "ev_content e \<noteq> []
        \<and> (\<exists>m\<in>set (yielded stream). is_AIMessage m \<and> ev_content e = content m)"
    if "e \<in> set ?evs" and "ev_type e = ''chunk''" for e
  proof -
    from that have "e \<in> set (filter (\<lambda>e. ev_type e = ''chunk'') ?evs)" by simp
    then obtain m where "m \<in> set (yielded stream)" "is_AIMessage m" "content m \<noteq> []"
      "e = \<lparr> ev_type = ''chunk'', ev_content = content m, ev_thread_id = thread_id \<rparr>"
      unfolding eq by auto
    then show ?thesis by auto
  qed
  with eq show ?thesis by blast
qed

theorem chunk_events_from_nonempty_ai_chunks_witness:
  "filter (\<lambda>e. ev_type e = ''chunk'')
     (generate_response (Yield (AIMessage [] [(''calculator'', ''{}'')])
        (Yield (ToolMessage ''4'' ''call_1'') (Yield (AIMessage ''Four'' []) StopIteration)))
        ''t1'')
   = [\<lparr> ev_type = ''chunk'', ev_content = ''Four'', ev_thread_id = ''t1'' \<rparr>]
   \<and> ev_content \<lparr> ev_type = ''chunk'', ev_content = ''Four'', ev_thread_id = ''t1'' \<rparr> \<noteq> []"
  using chunk_events_from_nonempty_ai_chunks
    [of "Yield (AIMessage [] [(''calculator'', ''{}'')])
        (Yield (ToolMessage ''4'' ''call_1'') (Yield (AIMessage ''Four'' []) StopIteration))"
        "''t1''"]
  by (simp add: generate_response_def)

text \<open>
  Claim C9. A request whose \<^verbatim>\<open>thread_id\<close> is the empty string is served under the
  string of the UUID generated for the call: the graph runs under that id and every
  emitted event carries it. That string has 36 characters, and for every request the id
  that the graph runs under and that the events carry is not the empty string.
\<close>

theorem empty_thread_id_gets_uuid:
  "(req_thread_id request = Some [] \<longrightarrow>
      chat_endpoint chatbot_stream uuid4 request =
        generate_response
          (chatbot_stream [HumanMessage (req_message request)] (str_uuid uuid4))
          (str_uuid uuid4)
      \<and> (\<forall>e\<in>set (chat_endpoint chatbot_stream uuid4 request).
            ev_thread_id e = str_uuid uuid4))
   \<and> length (str_uuid uuid4) = 36
   \<and> (\<exists>t. t \<noteq> []
        \<and> chat_endpoint chatbot_stream uuid4 request =
            generate_response (chatbot_stream [HumanMessage (req_message request)] t) t
        \<and> (\<forall>e\<in>set (chat_endpoint chatbot_stream uuid4 request). ev_thread_id e = t))"
proof -
  have ne: "str_uuid uuid4 \<noteq> []"
    using length_str_uuid [of uuid4] by auto
  have ids: "\<forall>e\<in>set (generate_response s t). ev_thread_id e = t" for s t
    unfolding generate_response_def using stream_loop_thread_id by blast
  have first: "chat_endpoint chatbot_stream uuid4 request =
        generate_response
          (chatbot_stream [HumanMessage (req_message request)] (str_uuid uuid4))
          (str_uuid uuid4)" if "req_thread_id request = Some []"
    using that by (simp add: chat_endpoint_def Let_def)
  have "\<exists>t. t \<noteq> []
        \<and> chat_endpoint chatbot_stream uuid4 request =
            generate_response (chatbot_stream [HumanMessage (req_message request)] t) t"
  proof (cases "req_thread_id request")
    case None
    then show ?thesis using ne by (auto simp: chat_endpoint_def Let_def)
  next
    case (Some t)
    then show ?thesis using ne by (cases "t = []") (auto simp: chat_endpoint_def Let_def)
  qed
  then obtain t where t: "t \<noteq> []"
    "chat_endpoint chatbot_stream uuid4 request =
       generate_response (chatbot_stream [HumanMessage (req_message request)] t) t"
    by blast
  have last: "\<exists>t. t \<noteq> []
        \<and> chat_endpoint chatbot_stream uuid4 request =
            generate_response (chatbot_stream [HumanMessage (req_message request)] t) t
        \<and> (\<forall>e\<in>set (chat_endpoint chatbot_stream uuid4 request). ev_thread_id e = t)"
    using t ids [of "chatbot_stream [HumanMessage (req_message request)] t" t] by metis
  show ?thesis
    using first ids length_str_uuid [of uuid4] last by simp
qed

theorem empty_thread_id_gets_uuid_witness:
  "req_thread_id \<lparr> req_message = ''hi'', req_thread_id = Some [] \<rparr> = Some []
   \<and> chat_endpoint (\<lambda>msgs t. Yield (AIMessage (content (hd msgs)) []) StopIteration) 0
        \<lparr> req_message = ''hi'', req_thread_id = Some [] \<rparr>
     = [\<lparr> ev_type = ''chunk'', ev_content = ''hi'',
          ev_thread_id = ''00000000-0000-0000-0000-000000000000'' \<rparr>,
        \<lparr> ev_type = ''complete'', ev_content = ''hi'',
          ev_thread_id = ''00000000-0000-0000-0000-000000000000'' \<rparr>]"
  using empty_thread_id_gets_uuid
    [of "\<lparr> req_message = ''hi'', req_thread_id = Some [] \<rparr>"
        "\<lambda>msgs t. Yield (AIMessage (content (hd msgs)) []) StopIteration" 0]
  by (simp add: generate_response_def str_uuid_0)

section \<open>Properties of the history view\<close>

text \<open>
  Claim C8. For every thread, \<^verbatim>\<open>get_thread_messages\<close> returns the messages that the
  store holds for that thread, in stored order, restricted to user messages and to
  assistant messages with non-empty content, each as its role and content. The role is
  \<^verbatim>\<open>user\<close> or \<^verbatim>\<open>assistant\<close> and an assistant entry has non-empty content; tool messages and
  assistant messages with empty content do not appear, so a thread that holds only such
  messages has an empty view, as has a thread without stored messages or one whose state
  cannot be read.
\<close>

theorem get_thread_messages_display_view:
  "(\<forall>vals msgs. get_state thread_id = Inr vals \<and> vals ''messages'' = Some msgs \<longrightarrow>
      get_thread_messages get_state thread_id = spec_get_messages msgs)
   \<and> (\<forall>vals. get_state thread_id = Inr vals \<and> vals ''messages'' = None \<longrightarrow>
        get_thread_messages get_state thread_id = [])
   \<and> (\<forall>e. get_state thread_id = Inl e \<longrightarrow> get_thread_messages get_state thread_id = [])
   \<and> (\<forall>f\<in>set (get_thread_messages get_state thread_id).
         fm_role f = ''user'' \<or> (fm_role f = ''assistant'' \<and> fm_content f \<noteq> []))
   \<and> (\<forall>vals msgs. get_state thread_id = Inr vals \<and> vals ''messages'' = Some msgs
         \<and> (\<forall>m\<in>set msgs. is_ToolMessage m \<or> (is_AIMessage m \<and> content m = []))
        \<longrightarrow> get_thread_messages get_state thread_id = [])"
proof -
  have stored: "get_thread_messages get_state thread_id = spec_get_messages msgs"
    if "get_state thread_id = Inr vals" and "vals ''messages'' = Some msgs" for vals msgs
    using that by (simp add: get_thread_messages_def load_conversation_def format_loop_acc)
  have absent: "get_thread_messages get_state thread_id = []"
    if "get_state thread_id = Inr vals" and "vals ''messages'' = None" for vals
    using that by (simp add: get_thread_messages_def load_conversation_def)
  have failed: "get_thread_messages get_state thread_id = []"
    if "get_state thread_id = Inl e" for e
    using that by (simp add: get_thread_messages_def load_conversation_def)
  have "get_thread_messages get_state thread_id =
      spec_get_messages (load_conversation get_state thread_id)"
    by (simp add: get_thread_messages_def format_loop_acc)
  then have roles: "\<forall>f\<in>set (get_thread_messages get_state thread_id).
      fm_role f = ''user'' \<or> (fm_role f = ''assistant'' \<and> fm_content f \<noteq> [])"
    by (auto simp: spec_get_messages_def spec_displayed_def spec_role_def)
  have hidden: "spec_get_messages msgs = []"
    if h: "\<forall>m\<in>set msgs. is_ToolMessage m \<or> (is_AIMessage m \<and> content m = [])" for msgs
  proof -
    have "\<not> spec_displayed m" if "m \<in> set msgs" for m
      using that h by (cases m) (auto simp: spec_displayed_def)
    then have "filter spec_displayed msgs = []" by (simp add: filter_empty_conv)
    then show ?thesis by (simp add: spec_get_messages_def)
  qed
  show ?thesis
    using stored absent failed roles hidden by (intro conjI allI impI) auto
qed

theorem get_thread_messages_display_view_witness:
  "get_thread_messages example_get_state ''t1''
     = [\<lparr> fm_role = ''user'', fm_content = ''2+2?'' \<rparr>,
        \<lparr> fm_role = ''assistant'', fm_content = ''Four'' \<rparr>,
        \<lparr> fm_role = ''user'', fm_content = [] \<rparr>]
   \<and> get_thread_messages example_get_state ''t2'' = []
   \<and> get_thread_messages example_get_state ''t3'' = []
   \<and> get_thread_messages example_get_state ''t4'' = []"
proof -
  have t1: "example_get_state ''t1'' = Inr [''messages'' \<mapsto>
          [HumanMessage ''2+2?'', AIMessage [] [(''calculator'', ''{}'')],
           ToolMessage ''4'' ''call_1'', AIMessage ''Four'' [], HumanMessage []]]"
    and t2: "example_get_state ''t2'' = Inr [''messages'' \<mapsto>
          [AIMessage [] [(''calculator'', ''{}'')], ToolMessage ''4'' ''call_1'']]"
    and t3: "example_get_state ''t3'' = Inl (OperationalError ''database is locked'')"
    and t4: "example_get_state ''t4'' = Inr Map.empty"
    by (simp_all add: example_get_state_def)
  show ?thesis
    using get_thread_messages_display_view [of example_get_state "''t1''"]
      get_thread_messages_display_view [of example_get_state "''t2''"]
      get_thread_messages_display_view [of example_get_state "''t3''"]
      get_thread_messages_display_view [of example_get_state "''t4''"]
    unfolding t1 t2 t3 t4
    by (simp add: spec_get_messages_def spec_displayed_def spec_role_def)
qed

section \<open>Properties of deleting a thread\<close>

lemma sublist_no_such_table: "sublist ''no such table'' (''no such table: '' @ table)"
proof -
  have "''no such table: '' @ table = ''no such table'' @ ('': '' @ table)" by simp
  then show ?thesis by (simp only: sublist_append_rightI)
qed

lemma not_sublist_io_error: "\<not> sublist ''no such table'' ''disk I/O error''"
  by (simp add: sublist_Cons_right)

lemma execute_missing_table:
  "execute_fault F table = None \<Longrightarrow> working conn table = None \<Longrightarrow>
     cursor_execute_delete F table t_id_str conn
       = Inl (OperationalError (''no such table: '' @ table))"
  by (simp add: cursor_execute_delete_def)

lemma purged_Nil: "purged t_id_str [] db = db"
  by (simp add: purged_def)

lemma purged_Cons_missing:
  "db table = None \<Longrightarrow> purged t_id_str (table # ts) db = purged t_id_str ts db"
  by (auto simp: purged_def fun_eq_iff)

lemma purged_Cons_present:
  "db table = Some rows \<Longrightarrow>
     purged t_id_str (table # ts) db =
       purged t_id_str ts (db(table \<mapsto> filter (\<lambda>r. row_thread_id r \<noteq> t_id_str) rows))"
  by (auto simp: purged_def fun_eq_iff)

lemma delete_loop_no_fault:
  "\<forall>t\<in>set ts. execute_fault F t = None \<Longrightarrow>
     delete_loop F t_id_str ts conn
       = (None, conn\<lparr> working := purged t_id_str ts (working conn) \<rparr>)"
proof (induction ts arbitrary: conn)
  case Nil
  show ?case by (simp add: purged_Nil)
next
  case (Cons table ts)
  then have nf: "execute_fault F table = None" and rest: "\<forall>t\<in>set ts. execute_fault F t = None"
    by simp_all
  show ?case
  proof (cases "working conn table")
    case None
    with nf have "delete_loop F t_id_str (table # ts) conn = delete_loop F t_id_str ts conn"
      by (simp add: execute_missing_table sublist_no_such_table)
    with Cons.IH [OF rest, of conn] None show ?thesis
      by (simp add: purged_Cons_missing)
  next
    case (Some rows)
    let ?conn' = "conn\<lparr> working :=
        (working conn)(table \<mapsto> filter (\<lambda>r. row_thread_id r \<noteq> t_id_str) rows) \<rparr>"
    from nf Some have step:
      "delete_loop F t_id_str (table # ts) conn = delete_loop F t_id_str ts ?conn'"
      by (simp add: cursor_execute_delete_def)
    have w: "working ?conn' =
        (working conn)(table \<mapsto> filter (\<lambda>r. row_thread_id r \<noteq> t_id_str) rows)"
      by simp
    have a: "delete_loop F t_id_str ts ?conn' =
        (None, ?conn'\<lparr> working := purged t_id_str ts (working ?conn') \<rparr>)"
      by (rule Cons.IH [OF rest])
    have b: "purged t_id_str ts (working ?conn') = purged t_id_str (table # ts) (working conn)"
      unfolding w
      using purged_Cons_present [of "working conn" table rows t_id_str ts] Some by simp
    have c: "?conn'\<lparr> working := purged t_id_str (table # ts) (working conn) \<rparr> =
        conn\<lparr> working := purged t_id_str (table # ts) (working conn) \<rparr>"
      by simp
    show ?thesis
      unfolding step by (simp only: a b c)
  qed
qed

lemma delete_loop_benign:
  "\<forall>t\<in>set ts. \<forall>e. execute_fault F t = Some e \<longrightarrow> no_such_table_error e \<Longrightarrow>
     fst (delete_loop F t_id_str ts conn) = None"
proof (induction ts arbitrary: conn)
  case Nil
  show ?case by simp
next
  case (Cons table ts)
  then have rest: "\<forall>t\<in>set ts. \<forall>e. execute_fault F t = Some e \<longrightarrow> no_such_table_error e"
    by simp
  note ih = Cons.IH [OF rest]
  show ?case
  proof (cases "cursor_execute_delete F table t_id_str conn")
    case (Inr conn')
    then show ?thesis using ih [of conn'] by simp
  next
    case (Inl e)
    have "no_such_table_error e"
    proof (cases "execute_fault F table")
      case None
      with Inl show ?thesis
        by (auto simp: cursor_execute_delete_def no_such_table_error_def sublist_no_such_table
            split: option.splits)
    next
      case (Some e')
      with Inl have "e = e'" by (simp add: cursor_execute_delete_def)
      with Some Cons.prems show ?thesis by simp
    qed
    with Inl show ?thesis using ih [of conn]
      by (cases e) (simp_all add: no_such_table_error_def)
  qed
qed

lemma delete_loop_fault:
  "\<exists>t\<in>set ts. \<exists>e. execute_fault F t = Some e \<and> \<not> no_such_table_error e \<Longrightarrow>
     fst (delete_loop F t_id_str ts conn) \<noteq> None"
proof (induction ts arbitrary: conn)
  case Nil
  then show ?case by simp
next
  case (Cons table ts)
  show ?case
  proof (cases "\<exists>e. execute_fault F table = Some e \<and> \<not> no_such_table_error e")
    case True
    then obtain e where e: "execute_fault F table = Some e" "\<not> no_such_table_error e"
      by blast
    then have "cursor_execute_delete F table t_id_str conn = Inl e"
      by (simp add: cursor_execute_delete_def)
    with e(2) show ?thesis
      by (cases e) (simp_all add: no_such_table_error_def)
  next
    case False
    with Cons.prems have rest:
      "\<exists>t\<in>set ts. \<exists>e. execute_fault F t = Some e \<and> \<not> no_such_table_error e"
      by auto
    note ih = Cons.IH [OF rest]
    show ?thesis
    proof (cases "cursor_execute_delete F table t_id_str conn")
      case (Inr conn')
      then show ?thesis using ih [of conn'] by simp
    next
      case (Inl e)
      then show ?thesis using ih [of conn]
        by (cases e) (simp_all)
    qed
  qed
qed

lemma delete_thread_returns:
  "\<exists>b conn'. delete_thread F thread_id conn = (Inr b, conn')"
  by (auto simp: delete_thread_def split: prod.splits sum.splits)

lemma delete_thread_True_iff:
  "fst (delete_thread F thread_id conn) = Inr True \<longleftrightarrow>
     cursor_fault F = None \<and> fst (delete_loop F thread_id tables conn) = None
     \<and> commit_fault F = None"
  by (auto simp: delete_thread_def delete_thread_try_def conn_commit_def
      split: prod.splits sum.splits option.splits)

lemma delete_thread_bool:
  "fst (delete_thread F thread_id conn) = Inr True
   \<or> fst (delete_thread F thread_id conn) = Inr False"
  by (auto simp: delete_thread_def split: prod.splits sum.splits)

lemma purged_never_created:
  "\<forall>t. \<forall>r\<in>set (rows_of db t). row_thread_id r \<noteq> t_id_str \<Longrightarrow> purged t_id_str ts db = db"
proof (rule ext)
  fix table
  assume h: "\<forall>t. \<forall>r\<in>set (rows_of db t). row_thread_id r \<noteq> t_id_str"
  show "purged t_id_str ts db table = db table"
  proof (cases "db table")
    case None
    then show ?thesis by (simp add: purged_def)
  next
    case (Some rows)
    with h [rule_format, of _ table] have "\<forall>r\<in>set rows. row_thread_id r \<noteq> t_id_str"
      by (simp add: rows_of_def)
    then have "filter (\<lambda>r. row_thread_id r \<noteq> t_id_str) rows = rows"
      by (simp add: filter_id_conv)
    with Some show ?thesis by (simp add: purged_def)
  qed
qed

lemma delete_thread_no_fault:
  "cursor_fault F = None \<Longrightarrow> commit_fault F = None \<Longrightarrow>
   \<forall>t\<in>set tables. execute_fault F t = None \<Longrightarrow>
     delete_thread F thread_id conn =
       (Inr True, \<lparr> working = purged thread_id tables (working conn),
                    durable = purged thread_id tables (working conn) \<rparr>)"
  by (simp add: delete_thread_def delete_thread_try_def conn_commit_def delete_loop_no_fault)

text \<open>
  Claim C3. The claim is that \<^verbatim>\<open>delete_thread\<close> leaves no row of the thread in any table
  of the checkpoint store. On the database of \<^verbatim>\<open>SqliteSaver\<close>, with the tables
  \<^verbatim>\<open>checkpoints\<close> and \<^verbatim>\<open>writes\<close>, deleting thread \<^verbatim>\<open>t1\<close> reports success and removes
  its checkpoint, and the row of \<^verbatim>\<open>t1\<close> in \<^verbatim>\<open>writes\<close> is still stored afterwards:
  \<^verbatim>\<open>writes\<close> is not among the three table names of the loop.
\<close>

theorem delete_thread_leaves_writes:
  "fst (delete_thread no_faults ''t1'' saver_conn) = Inr True
   \<and> durable (snd (delete_thread no_faults ''t1'' saver_conn)) ''checkpoints''
       = Some [\<lparr> row_thread_id = ''t2'', row_rest = ''checkpoint 2'' \<rparr>]
   \<and> durable (snd (delete_thread no_faults ''t1'' saver_conn)) ''writes''
       = Some [\<lparr> row_thread_id = ''t1'', row_rest = ''pending write'' \<rparr>]"
proof -
  have "delete_thread no_faults ''t1'' saver_conn =
      (Inr True, \<lparr> working = purged ''t1'' tables (working saver_conn),
                   durable = purged ''t1'' tables (working saver_conn) \<rparr>)"
    by (rule delete_thread_no_fault) (simp_all add: no_faults_def)
  then show ?thesis
    by (simp add: purged_def tables_def saver_conn_def saver_db_def)
qed

text \<open>
  Claim C4, as stated: a storage fault other than a missing table propagates to the caller.
  It does not. With an I/O error on the first statement, which is an
  \<^verbatim>\<open>OperationalError\<close> whose text does not contain \<^verbatim>\<open>no such table\<close>, the call returns
  \<^verbatim>\<open>False\<close>; no exception reaches the caller.
\<close>

theorem delete_thread_fault_not_raised:
  "cursor_execute_delete io_fault ''checkpoints'' ''t1'' saver_conn
     = Inl (OperationalError ''disk I/O error'')
   \<and> \<not> no_such_table_error (OperationalError ''disk I/O error'')
   \<and> fst (delete_thread io_fault ''t1'' saver_conn) = Inr False
   \<and> fst (delete_thread io_fault ''t1'' saver_conn) \<noteq> Inl (OperationalError ''disk I/O error'')"
  by (simp add: delete_thread_def delete_thread_try_def tables_def cursor_execute_delete_def
      io_fault_def no_such_table_error_def not_sublist_io_error)

text \<open>
  Claim C4, amended. \<^verbatim>\<open>delete_thread\<close> never raises. It returns \<^verbatim>\<open>True\<close> when the only
  exceptions of its statements are \<^verbatim>\<open>OperationalError\<close>s whose text contains
  \<^verbatim>\<open>no such table\<close>, as for a table that does not exist, and it returns \<^verbatim>\<open>False\<close> when
  \<^verbatim>\<open>conn.cursor()\<close>, a statement or \<^verbatim>\<open>conn.commit()\<close> raises anything else: such a fault
  is reported in the returned boolean.
\<close>

theorem delete_thread_reports_faults:
  "(\<forall>e. fst (delete_thread F thread_id conn) \<noteq> Inl e)
   \<and> (cursor_fault F = None \<and> commit_fault F = None
        \<and> (\<forall>t\<in>set tables. \<forall>e. execute_fault F t = Some e \<longrightarrow> no_such_table_error e)
        \<longrightarrow> fst (delete_thread F thread_id conn) = Inr True)
   \<and> (cursor_fault F \<noteq> None \<or> commit_fault F \<noteq> None
        \<or> (\<exists>t\<in>set tables. \<exists>e. execute_fault F t = Some e \<and> \<not> no_such_table_error e)
        \<longrightarrow> fst (delete_thread F thread_id conn) = Inr False)"
proof (intro conjI impI allI)
  fix e
  show "fst (delete_thread F thread_id conn) \<noteq> Inl e"
    using delete_thread_returns [of F thread_id conn] by auto
next
  assume "cursor_fault F = None \<and> commit_fault F = None
        \<and> (\<forall>t\<in>set tables. \<forall>e. execute_fault F t = Some e \<longrightarrow> no_such_table_error e)"
  then show "fst (delete_thread F thread_id conn) = Inr True"
    by (simp add: delete_thread_True_iff delete_loop_benign)
next
  assume h: "cursor_fault F \<noteq> None \<or> commit_fault F \<noteq> None
        \<or> (\<exists>t\<in>set tables. \<exists>e. execute_fault F t = Some e \<and> \<not> no_such_table_error e)"
  have "fst (delete_thread F thread_id conn) \<noteq> Inr True"
  proof
    assume "fst (delete_thread F thread_id conn) = Inr True"
    then have ok: "cursor_fault F = None" "fst (delete_loop F thread_id tables conn) = None"
      "commit_fault F = None"
      by (simp_all add: delete_thread_True_iff)
    with h have "\<exists>t\<in>set tables. \<exists>e. execute_fault F t = Some e \<and> \<not> no_such_table_error e"
      by simp
    from delete_loop_fault [OF this, of thread_id conn] ok(2) show False by simp
  qed
  with delete_thread_bool [of F thread_id conn]
  show "fst (delete_thread F thread_id conn) = Inr False" by blast
qed

theorem delete_thread_reports_faults_witness:
  "fst (delete_thread no_faults ''t1'' saver_conn) = Inr True
   \<and> working saver_conn ''checkpoint_blobs'' = None
   \<and> execute_fault io_fault ''checkpoints'' = Some (OperationalError ''disk I/O error'')
   \<and> \<not> no_such_table_error (OperationalError ''disk I/O error'')
   \<and> fst (delete_thread io_fault ''t1'' saver_conn) = Inr False"
proof -
  have a: "cursor_fault no_faults = None \<and> commit_fault no_faults = None
      \<and> (\<forall>t\<in>set tables. \<forall>e. execute_fault no_faults t = Some e \<longrightarrow> no_such_table_error e)"
    by (simp add: no_faults_def)
  have b: "execute_fault io_fault ''checkpoints'' = Some (OperationalError ''disk I/O error'')"
    "\<not> no_such_table_error (OperationalError ''disk I/O error'')"
    "''checkpoints'' \<in> set tables"
    by (simp_all add: io_fault_def no_such_table_error_def not_sublist_io_error tables_def)
  then have c: "cursor_fault io_fault \<noteq> None \<or> commit_fault io_fault \<noteq> None
      \<or> (\<exists>t\<in>set tables. \<exists>e. execute_fault io_fault t = Some e \<and> \<not> no_such_table_error e)"
    by blast
  have d: "working saver_conn ''checkpoint_blobs'' = None"
    by (simp add: saver_conn_def saver_db_def)
  show ?thesis
    using delete_thread_reports_faults [of no_faults "''t1''" saver_conn]
      delete_thread_reports_faults [of io_fault "''t1''" saver_conn] a b c d
    by blast
qed

text \<open>
  Claim C7. \<^verbatim>\<open>delete_thread\<close> never raises, and on a working storage a thread id that
  has no row in any table gets \<^verbatim>\<open>True\<close>: whether the tables exist or not, the call
  changes nothing that the connection sees and commits.
\<close>

theorem delete_thread_never_created:
  "(\<exists>b conn'. delete_thread F thread_id conn = (Inr b, conn'))
   \<and> (cursor_fault F = None \<and> commit_fault F = None
        \<and> (\<forall>t\<in>set tables. execute_fault F t = None)
        \<and> (\<forall>t. \<forall>r\<in>set (rows_of (working conn) t). row_thread_id r \<noteq> thread_id)
        \<longrightarrow> delete_thread F thread_id conn = (Inr True, conn\<lparr> durable := working conn \<rparr>))"
proof (intro conjI impI)
  show "\<exists>b conn'. delete_thread F thread_id conn = (Inr b, conn')"
    by (rule delete_thread_returns)
next
  assume h: "cursor_fault F = None \<and> commit_fault F = None
        \<and> (\<forall>t\<in>set tables. execute_fault F t = None)
        \<and> (\<forall>t. \<forall>r\<in>set (rows_of (working conn) t). row_thread_id r \<noteq> thread_id)"
  then have "purged thread_id tables (working conn) = working conn"
    by (simp add: purged_never_created)
  with h show "delete_thread F thread_id conn = (Inr True, conn\<lparr> durable := working conn \<rparr>)"
    by (simp add: delete_thread_no_fault)
qed

theorem delete_thread_never_created_witness:
  "map row_thread_id (rows_of (working saver_conn) ''checkpoints'') = [''t1'', ''t2'']
   \<and> map row_thread_id (rows_of (working saver_conn) ''writes'') = [''t1'']
   \<and> delete_thread no_faults ''t9'' saver_conn = (Inr True, saver_conn)"
proof -
  have a: "\<forall>t. \<forall>r\<in>set (rows_of (working saver_conn) t). row_thread_id r \<noteq> ''t9''"
    by (simp add: rows_of_def saver_conn_def saver_db_def)
  have b: "cursor_fault no_faults = None \<and> commit_fault no_faults = None
      \<and> (\<forall>t\<in>set tables. execute_fault no_faults t = None)"
    by (simp add: no_faults_def)
  have c: "saver_conn\<lparr> durable := working saver_conn \<rparr> = saver_conn"
    by (simp add: saver_conn_def)
  have d: "map row_thread_id (rows_of (working saver_conn) ''checkpoints'') = [''t1'', ''t2'']"
    "map row_thread_id (rows_of (working saver_conn) ''writes'') = [''t1'']"
    by (simp_all add: rows_of_def saver_conn_def saver_db_def)
  show ?thesis
    using delete_thread_never_created [of no_faults "''t9''" saver_conn] a b c d by simp
qed

end
